theory Spec2Isabelle
  imports Main "HOL-Library.AList"
begin

section \<open>JavaScript values and strings\<close>

text \<open>
  The values that reach the registry from user code. A state name is a string; the setter
  of \<open>state\<close> also accepts any other value and calls \<open>value.toString()\<close> on it.
  \<open>Other s\<close> stands for a value that is not a string and not nullish (a number, a boolean,
  an object) whose \<open>toString()\<close> returns \<open>s\<close>.

  Strings are lists of characters read as ASCII: \<open>trim\<close> removes the ASCII white space
  and line terminators (codes 9 to 13 and 32) and \<open>toLowerCase\<close> maps \<open>A\<close>..\<open>Z\<close> to
  \<open>a\<close>..\<open>z\<close>; characters outside ASCII are left as they are.
\<close>

datatype jsval = Str string | Null | Undefined | Other string

datatype error = Error string | TypeError string | Thrown string

definition is_space :: "char \<Rightarrow> bool" where
  "is_space c = (c \<in> set [CHR 0x09, CHR 0x0A, CHR 0x0B, CHR 0x0C, CHR 0x0D, CHR 0x20])"

definition trim :: "string \<Rightarrow> string" where
  "trim s = rev (dropWhile is_space (rev (dropWhile is_space s)))"

definition lower_char :: "char \<Rightarrow> char" where
  "lower_char c =
     (case map_of (zip ''ABCDEFGHIJKLMNOPQRSTUVWXYZ'' ''abcdefghijklmnopqrstuvwxyz'') c of
        Some l \<Rightarrow> l
      | None \<Rightarrow> c)"

definition toLowerCase :: "string \<Rightarrow> string" where
  "toLowerCase s = map lower_char s"

text \<open>\<open>value.toString()\<close>: a property access on \<open>null\<close> or \<open>undefined\<close> throws.\<close>

fun toString :: "jsval \<Rightarrow> error + string" where
  "toString (Str s) = Inr s"
| "toString (Other s) = Inr s"
| "toString Null = Inl (TypeError ''null has no property toString'')"
| "toString Undefined = Inl (TypeError ''undefined has no property toString'')"

text \<open>\<open>value.toString().trim().toLowerCase()\<close>, on the string \<open>toString\<close> returned.\<close>

definition normalized :: "string \<Rightarrow> string" where
  "normalized s = toLowerCase (trim s)"

text \<open>\<open>NGN.coalesce\<close>: the first argument that is neither \<open>null\<close> nor \<open>undefined\<close>.\<close>

fun coalesce :: "jsval list \<Rightarrow> jsval" where
  "coalesce [] = Null"
| "coalesce (Null # vs) = coalesce vs"
| "coalesce (Undefined # vs) = coalesce vs"
| "coalesce (v # vs) = v"

text \<open>\<open>s.indexOf(sub) >= 0\<close>.\<close>

fun contains :: "string \<Rightarrow> string \<Rightarrow> bool" where
  "contains [] sub = (sub = [])"
| "contains (c # cs) sub = (take (length sub) (c # cs) = sub \<or> contains cs sub)"

section \<open>The registry\<close>

text \<open>
  A state handler is a user function. It is represented by its source text (what
  \<open>handlerFn.toString()\<close> returns) and by its outcome when it is applied: it returns
  (\<open>None\<close>) or throws. The wrapper and the dispatch listener apply it to the
  constructor's \<open>arguments\<close>, which are the same at every call. What a handler body does
  to the rest of the page is outside the registry; a handler that itself assigns
  \<open>state\<close> is not represented, and neither are listeners subscribed by user code.
\<close>

datatype handler = Handler (src: string) (throws: "error option")

text \<open>The payloads of the events a registry emits.\<close>

datatype payload =
    Change string string
  | PropertyChange string jsval jsval

text \<open>
  What a registry does that its owner can observe, in order: a call of \<open>this.emit\<close>
  with topic and payload, the application of the user's handler stored under a key of
  \<open>states\<close>, a \<open>console.warn\<close>.
\<close>

datatype action =
    Emit string payload
  | Invoke string
  | Warn string

text \<open>
  The fields set by \<open>Object.defineProperties\<close> in the constructor, with the leading
  underscore of the private ones written \<open>p_\<close>. \<open>p_parent\<close> is whether \<open>_parent\<close>
  holds a registry: the object itself is the node above in \<open>view\<close> below.
  \<open>scope\<close> is inherited from \<open>NGNX.Driver\<close>.
\<close>

record registry =
  selector :: string
  scope :: "string option"
  references :: "(string \<times> string) list"
  p_parent :: bool
  propertyFields :: "(string \<times> jsval) list option"
  p_properties :: "(string \<times> jsval) list option"
  p_states :: "(string \<times> handler) list"
  p_state :: string
  displaystate :: "string option"
  initialstate :: string
  p_reactions :: "(string \<times> string) list option"
  trace :: "action list"

text \<open>
  A registry together with the registries constructed with it as \<open>parent\<close>, in the
  order of their construction: each of them subscribed to this registry's
  \<open>state.changed\<close> and \<open>property.changed\<close> events in its constructor.
\<close>

datatype view = View (reg: registry) (subs: "view list")

text \<open>\<open>get state\<close> and \<open>get reactions\<close>.\<close>

definition state :: "registry \<Rightarrow> string" where
  "state r = p_state r"

definition reactions :: "registry \<Rightarrow> (string \<times> string) list" where
  "reactions r = (case p_reactions r of None \<Rightarrow> [] | Some m \<Rightarrow> m)"

text \<open>\<open>obj.hasOwnProperty(key)\<close> on an object held as an association list.\<close>

definition hasOwnProperty :: "(string \<times> 'a) list \<Rightarrow> string \<Rightarrow> bool" where
  "hasOwnProperty obj key = (map_of obj key \<noteq> None)"

definition managesState :: "registry \<Rightarrow> string \<Rightarrow> bool" where
  "managesState r s = hasOwnProperty (p_states r) s"


section \<open>The state machine\<close>

text \<open>
  The listeners the constructor subscribes are, on the registry's own channel, the
  reaction listener of \<open>parent.state.changed\<close> and the dispatch listener of
  \<open>state.changed\<close>; on the parent's channel, the two forwarding listeners. The
  dispatch listener is subscribed in the registry's own constructor, hence before the
  forwarding listener of any child.
\<close>

text \<open>
  The wrapper put around every entry of \<open>_states\<close>: the user's function is applied; if
  it throws, a warning is printed when its lower-cased source contains \<open>this.\<close> and
  does not contain \<open>function\<close>, and the exception is thrown again.
\<close>

definition wrapped :: "string \<Rightarrow> handler \<Rightarrow> action list \<times> error option" where
  "wrapped key handlerFn =
     (case throws handlerFn of
        None \<Rightarrow> ([Invoke key], None)
      | Some e \<Rightarrow>
          (let fnString = toLowerCase (src handlerFn)
           in ([Invoke key] @
               (if contains fnString ''this.'' \<and> \<not> contains fnString ''function''
                then [Warn key] else []),
               Some e)))"

text \<open>
  The listener of \<open>state.changed\<close>:
  \<open>this._states[NGN.coalesce(change.new, 'default')].apply(this, arguments)\<close>.
  \<open>change.new\<close> is a string, never \<open>null\<close>, so \<open>coalesce\<close> returns it. Under a key
  that \<open>_states\<close> does not have the lookup gives \<open>undefined\<close> and \<open>.apply\<close> throws
  a \<open>TypeError\<close> (its message depends on the engine). The one lower-case key under
  which a plain object inherits a function is \<open>constructor\<close>: it is the function
  \<open>Object\<close>, which returns.
\<close>

definition dispatch :: "registry \<Rightarrow> string \<Rightarrow> action list \<times> error option" where
  "dispatch r new =
     (case map_of (p_states r) new of
        Some handlerFn \<Rightarrow> wrapped new handlerFn
      | None \<Rightarrow>
          if new = ''constructor'' then ([], None)
          else ([], Some (TypeError ''undefined has no property apply'')))"

text \<open>
  Modelled from the spec: \<open>on\<close> and \<open>emit\<close> of \<open>NGNX.Driver\<close> (over \<open>NGN.BUS\<close>),
  which are not among the sources. They are a publish/subscribe channel whose event
  names are prefixed with the registry's namespace: \<open>emit\<close> runs the listeners of the
  event synchronously, in the order of their subscription, and an exception thrown by a
  listener propagates to the caller of \<open>emit\<close>. The channels of different registries
  are taken to be separate: what a registry emits reaches the listeners subscribed
  through that registry, and no others.

  \<open>set state (value)\<close> (lines 395 to 410), with the listeners that its \<open>emit\<close> runs:
  the dispatch listener, then the forwarding listener of each child in turn
  (\<open>notify\<close>). The forwarding listener emits \<open>parent.state.changed\<close> on the child,
  where the reaction listener assigns \<open>this.state = this.reactions[state.new]\<close> if
  \<open>managesReaction(state.new)\<close>, that is, if \<open>reactions\<close> has the key
  (\<open>forward\<close>). The result is the registry after the call and the exception thrown,
  if any: a listener that throws ends the \<open>emit\<close> and the assignment.
\<close>

fun set_state :: "view \<Rightarrow> jsval \<Rightarrow> view \<times> error option"
  and forward :: "view \<Rightarrow> string \<Rightarrow> string \<Rightarrow> view \<times> error option"
  and notify :: "view list \<Rightarrow> string \<Rightarrow> string \<Rightarrow> view list \<times> error option"
where
  "set_state (View r cs) v =
     (if v = Str (state r) then (View r cs, None)
      else
        (case toString v of
           Inl e \<Rightarrow> (View r cs, Some e)
         | Inr s \<Rightarrow>
             (let old = state r;
                  r1 = r\<lparr>p_state := toLowerCase (trim s)\<rparr>;
                  r2 = r1\<lparr>trace := trace r1 @ [Emit ''state.changed'' (Change old (p_state r1))]\<rparr>
              in (case dispatch r2 (p_state r2) of
                    (acts, Some e) \<Rightarrow> (View (r2\<lparr>trace := trace r2 @ acts\<rparr>) cs, Some e)
                  | (acts, None) \<Rightarrow>
                      (case notify cs old (p_state r2) of
                         (cs', err) \<Rightarrow> (View (r2\<lparr>trace := trace r2 @ acts\<rparr>) cs', err))))))"
| "forward (View c gs) old new =
     (let c1 = c\<lparr>trace := trace c @ [Emit ''parent.state.changed'' (Change old new)]\<rparr>
      in (case map_of (reactions c1) new of
            None \<Rightarrow> (View c1 gs, None)
          | Some target \<Rightarrow> set_state (View c1 gs) (Str target)))"
| "notify [] old new = ([], None)"
| "notify (c # cs) old new =
     (case forward c old new of
        (c', Some e) \<Rightarrow> (c' # cs, Some e)
      | (c', None) \<Rightarrow>
          (case notify cs old new of (cs', err) \<Rightarrow> (c' # cs', err)))"



fun invoked :: "action list \<Rightarrow> string list" where
  "invoked [] = []"
| "invoked (Invoke k # as) = k # invoked as"
| "invoked (Emit t p # as) = invoked as"
| "invoked (Warn k # as) = invoked as"

section \<open>Property change translation\<close>

text \<open>
  Modelled from the spec: the property model (\<open>NGN.DATA.Model\<close>) is an external typed
  record that emits \<open>field.update\<close>, \<open>field.create\<close> and \<open>field.delete\<close>. The
  instance is held as its current field values, initially the configured ones; an event
  carries the fields \<open>change.field\<close>, \<open>change.old\<close>, \<open>change.new\<close> and
  \<open>change.value\<close> that the three listeners read.
\<close>

datatype field_event =
    Field_update string jsval jsval
  | Field_create string
  | Field_delete string jsval

text \<open>\<open>obj[key]\<close>: \<open>undefined\<close> when the object has no such property.\<close>

definition get_property :: "(string \<times> jsval) list \<Rightarrow> string \<Rightarrow> jsval" where
  "get_property obj key = (case map_of obj key of None \<Rightarrow> Undefined | Some v \<Rightarrow> v)"

text \<open>
  \<open>this.emit('property.changed', change)\<close>: the listeners of this event are the
  forwarding listeners of the children, each of which emits
  \<open>parent.property.changed\<close> on the child with the same payload.
\<close>

definition forward_property :: "payload \<Rightarrow> view \<Rightarrow> view" where
  "forward_property change c =
     View ((reg c)\<lparr>trace := trace (reg c) @ [Emit ''parent.property.changed'' change]\<rparr>) (subs c)"

definition emit_property_changed :: "view \<Rightarrow> payload \<Rightarrow> view" where
  "emit_property_changed v change =
     View ((reg v)\<lparr>trace := trace (reg v) @ [Emit ''property.changed'' change]\<rparr>)
       (map (forward_property change) (subs v))"

text \<open>
  The three listeners on \<open>this._properties\<close>. They exist only when a property model was
  configured.
\<close>

fun field_listener :: "view \<Rightarrow> field_event \<Rightarrow> view" where
  "field_listener v (Field_update field old new) =
     (case p_properties (reg v) of
        None \<Rightarrow> v
      | Some model \<Rightarrow> emit_property_changed v (PropertyChange field old new))"
| "field_listener v (Field_create field) =
     (case p_properties (reg v) of
        None \<Rightarrow> v
      | Some model \<Rightarrow>
          emit_property_changed v (PropertyChange field Null (coalesce [get_property model field])))"
| "field_listener v (Field_delete field val) =
     (case p_properties (reg v) of
        None \<Rightarrow> v
      | Some model \<Rightarrow> emit_property_changed v (PropertyChange field val Null))"

section \<open>Reactions\<close>

text \<open>
  \<open>createReaction\<close> assigns \<open>this._reactions[source]\<close> and \<open>removeReaction\<close> deletes
  it: on \<open>null\<close> either access throws.
\<close>

definition createReaction :: "registry \<Rightarrow> string \<Rightarrow> string \<Rightarrow> error + registry" where
  "createReaction r source target =
     (if \<not> p_parent r
      then Inr (r\<lparr>trace := trace r @
             [Warn ''Cannot create a reaction to a parent view registry when no parent is configured.'']\<rparr>)
      else
        (case p_reactions r of
           None \<Rightarrow> Inl (TypeError ''null has no properties'')
         | Some m \<Rightarrow> Inr (r\<lparr>p_reactions := Some (AList.update source target m)\<rparr>)))"


definition clearReactions :: "registry \<Rightarrow> registry" where
  "clearReactions r = r\<lparr>p_reactions := None\<rparr>"

section \<open>Construction\<close>

text \<open>
  The DOM is external: \<open>document\<close> gives, for a selector, the elements it matches in
  document order, and \<open>querySelector\<close> returns the first of them or \<open>null\<close>.
\<close>

type_synonym document = "string \<Rightarrow> nat list"

definition querySelector :: "document \<Rightarrow> string \<Rightarrow> nat option" where
  "querySelector doc sel = (case doc sel of [] \<Rightarrow> None | element # _ \<Rightarrow> Some element)"

text \<open>
  The configuration object; \<open>None\<close> is a property the object does not have.
  \<open>cfg_parent\<close> is the parent registry as it is when the constructor runs.
\<close>

record config =
  cfg_selector :: "string option"
  cfg_parent :: "view option"
  cfg_namespace :: "string option"
  cfg_references :: "(string \<times> string) list option"
  cfg_properties :: "(string \<times> jsval) list option"
  cfg_states :: "(string \<times> handler) list option"
  cfg_initialState :: "string option"
  cfg_initialstate :: "string option"
  cfg_reactions :: "(string \<times> string) list option"

text \<open>
  The argument of the constructor: a falsy value (replaced by \<open>{}\<close>), a truthy value
  that is not an object (with its \<open>typeof\<close>), or a configuration object.
\<close>

datatype cfg_arg = Falsy | Primitive string | Config config

text \<open>
  What a successful construction leaves: the new registry (it has no children yet), the
  parent with the new registry subscribed to its events, the selector registered for
  \<open>this.id\<close> by \<open>NGN.ref.create\<close>, and the value the deferred task will assign to
  \<open>state\<close>, if a task was queued by \<open>NGNX.util.requeue\<close>.
\<close>

record construction =
  constructed :: view
  parent_view :: "view option"
  ref_created :: string
  requeued :: "string option"

text \<open>Lines 67 to 83: scoping of selector and namespace under the parent.\<close>

definition inherit :: "document \<Rightarrow> config \<Rightarrow> string \<Rightarrow> error + config" where
  "inherit doc cfg sel =
     (case cfg_parent cfg of
        None \<Rightarrow> Inr cfg
      | Some parent \<Rightarrow>
          if querySelector doc (selector (reg parent)) = None
          then Inl (Error ''Parent component could not be found.'')
          else Inr (cfg\<lparr>
            cfg_selector := Some (selector (reg parent) @ '' '' @ sel),
            cfg_namespace :=
              (case cfg_namespace cfg of
                 Some ns \<Rightarrow>
                   (case scope (reg parent) of
                      None \<Rightarrow> Some ns
                    | Some ps \<Rightarrow> Some (ps @ ns))
               | None \<Rightarrow>
                   (case scope (reg parent) of
                      None \<Rightarrow> None
                    | Some ps \<Rightarrow> if ps \<noteq> [] then Some ps else None))\<rparr>))"

text \<open>Lines 85 to 90: every reference is scoped under the effective selector.\<close>

definition scope_references :: "config \<Rightarrow> string \<Rightarrow> config" where
  "scope_references cfg sel =
     (case cfg_references cfg of
        None \<Rightarrow> cfg
      | Some refs \<Rightarrow>
          cfg\<lparr>cfg_references := Some (map (\<lambda>(r, target). (r, sel @ '' '' @ target)) refs)\<rparr>)"

text \<open>
  Modelled from the spec: \<open>super(cfg)\<close>, the constructor of \<open>NGNX.Driver\<close>, which is
  not among the sources. It takes the namespace and the references of the configuration;
  \<open>scope\<close> is the effective namespace, \<open>null\<close> when there is none.

  The rest is lines 101 to 355, which run once the element was found. The loop over
  \<open>_states\<close> wraps every handler; \<open>p_states\<close> keeps the user's functions and
  \<open>dispatch\<close> applies the wrapper.
\<close>

definition initialise :: "config \<Rightarrow> string \<Rightarrow> construction" where
  "initialise cfg sel =
     (let states0 = (case cfg_states cfg of None \<Rightarrow> [] | Some m \<Rightarrow> m);
          states1 = (if \<not> hasOwnProperty states0 ''default''
                     then AList.update ''default'' (Handler ''() => {}'' None) states0
                     else states0);
          this = \<lparr>
            selector = sel,
            scope = cfg_namespace cfg,
            references = (case cfg_references cfg of None \<Rightarrow> [] | Some refs \<Rightarrow> refs),
            p_parent = (cfg_parent cfg \<noteq> None),
            propertyFields = cfg_properties cfg,
            p_properties = cfg_properties cfg,
            p_states = states1,
            p_state = ''default'',
            displaystate = None,
            initialstate =
              (case cfg_initialState cfg of
                 Some s \<Rightarrow> s
               | None \<Rightarrow> (case cfg_initialstate cfg of Some s \<Rightarrow> s | None \<Rightarrow> ''default'')),
            p_reactions = cfg_reactions cfg,
            trace = []\<rparr>
      in \<lparr>constructed = View this [],
          parent_view =
            (case cfg_parent cfg of
               None \<Rightarrow> None
             | Some parent \<Rightarrow> Some (View (reg parent) (subs parent @ [View this []]))),
          ref_created = selector this,
          requeued =
            (if initialstate this \<noteq> p_state this \<and> managesState this (initialstate this)
             then Some (initialstate this) else None)\<rparr>)"

text \<open>
  The constructor. The first component of the result is the caller's configuration
  object as the constructor leaves it (the constructor assigns to its properties), the
  second the exception thrown or what was constructed.
\<close>

definition ViewRegistry2 :: "document \<Rightarrow> cfg_arg \<Rightarrow> config option \<times> (error + construction)" where
  "ViewRegistry2 doc arg =
     (case arg of
        Primitive t \<Rightarrow>
          (None, Inl (Error (''Invalid configuration. Expected Object, received '' @ t @ ''.'')))
      | Falsy \<Rightarrow> (None, Inl (Error ''Missing required configuration attribute: selector''))
      | Config cfg \<Rightarrow>
          (case cfg_selector cfg of
             None \<Rightarrow> (Some cfg, Inl (Error ''Missing required configuration attribute: selector''))
           | Some sel \<Rightarrow>
               (case inherit doc cfg sel of
                  Inl e \<Rightarrow> (Some cfg, Inl e)
                | Inr cfg1 \<Rightarrow>
                    (let sel1 = (case cfg_selector cfg1 of Some s \<Rightarrow> s | None \<Rightarrow> sel);
                         cfg2 = scope_references cfg1 sel1
                     in (case querySelector doc sel1 of
                           None \<Rightarrow>
                             (Some cfg2,
                              Inl (Error (''Could not find valid DOM element for '' @ [CHR 0x27] @ sel1 @ [CHR 0x27])))
                         | Some element \<Rightarrow> (Some cfg2, Inr (initialise cfg2 sel1)))))))"

section \<open>An example page\<close>

text \<open>
  A page on which \<open>.app\<close> and \<open>.app .panel\<close> match one element each, \<open>ul li\<close>
  matches two and nothing else matches; the configuration of a registry with the states
  \<open>default\<close>, \<open>offline\<close> and \<open>online\<close> and the initial state \<open>offline\<close>, and
  the registry \<open>app\<close> the constructor makes of it; the configuration of a child of
  \<open>app\<close> that reacts to \<open>online\<close> with \<open>active\<close>, and the child \<open>panel\<close>.
\<close>

definition page :: document where
  "page sel =
     (if sel = ''.app'' then [1]
      else if sel = ''.app .panel'' then [2]
      else if sel = ''ul li'' then [3, 4]
      else [])"


definition app :: registry where
  "app = \<lparr>
     selector = ''.app'',
     scope = Some ''app.'',
     references = [],
     p_parent = False,
     propertyFields = None,
     p_properties = None,
     p_states = [
       (''default'', Handler ''function () {}'' None),
       (''offline'', Handler ''function () { this.hide() }'' None),
       (''online'', Handler ''function () { this.show() }'' None)],
     p_state = ''default'',
     displaystate = None,
     initialstate = ''offline'',
     p_reactions = None,
     trace = []\<rparr>"

definition panel_cfg :: config where
  "panel_cfg = \<lparr>
     cfg_selector = Some ''.panel'',
     cfg_parent = Some (View app []),
     cfg_namespace = Some ''panel.'',
     cfg_references = None,
     cfg_properties = Some [(''title'', Str ''Untitled'')],
     cfg_states = Some [(''active'', Handler ''function () { this.show() }'' None)],
     cfg_initialState = None,
     cfg_initialstate = None,
     cfg_reactions = Some [(''online'', ''active'')]\<rparr>"

definition panel :: registry where
  "panel = \<lparr>
     selector = ''.app .panel'',
     scope = Some ''app.panel.'',
     references = [],
     p_parent = True,
     propertyFields = Some [(''title'', Str ''Untitled'')],
     p_properties = Some [(''title'', Str ''Untitled'')],
     p_states = [
       (''active'', Handler ''function () { this.show() }'' None),
       (''default'', Handler ''() => {}'' None)],
     p_state = ''default'',
     displaystate = None,
     initialstate = ''default'',
     p_reactions = Some [(''online'', ''active'')],
     trace = []\<rparr>"


definition sidebar_cfg :: config where
  "sidebar_cfg = panel_cfg\<lparr>cfg_reactions := None\<rparr>"

definition sidebar :: registry where
  "sidebar = panel\<lparr>p_reactions := None\<rparr>"

text \<open>The string an absent namespace or scope contributes to a concatenation.\<close>

definition prefix_of :: "string option \<Rightarrow> string" where
  "prefix_of ns = (case ns of None \<Rightarrow> [] | Some s \<Rightarrow> s)"

section \<open>Properties of the model\<close>

lemmas string_defs = normalized_def trim_def toLowerCase_def lower_char_def is_space_def

lemmas machine_defs = state_def reactions_def dispatch_def wrapped_def Let_def

lemmas construct_defs =
  ViewRegistry2_def inherit_def scope_references_def initialise_def querySelector_def
  hasOwnProperty_def managesState_def


lemma panel_constructed:
  "ViewRegistry2 page (Config panel_cfg) =
     (Some (panel_cfg\<lparr>cfg_selector := Some ''.app .panel'', cfg_namespace := Some ''app.panel.''\<rparr>),
      Inr \<lparr>constructed = View panel [], parent_view = Some (View app [View panel []]),
           ref_created = ''.app .panel'', requeued = None\<rparr>)"
  by (simp add: construct_defs page_def panel_cfg_def panel_def app_def Let_def)

lemma sidebar_constructed:
  "snd (ViewRegistry2 page (Config sidebar_cfg)) =
     Inr \<lparr>constructed = View sidebar [], parent_view = Some (View app [View sidebar []]),
          ref_created = ''.app .panel'', requeued = None\<rparr>"
  by (simp add: construct_defs page_def sidebar_cfg_def sidebar_def panel_cfg_def panel_def
      app_def Let_def)










text \<open>What a successful construction was made of.\<close>

lemma constructed_initialise:
  assumes "snd (ViewRegistry2 doc (Config cfg)) = Inr c"
  shows "\<exists>cfg2 sel2. c = initialise cfg2 sel2 \<and>
           cfg_states cfg2 = cfg_states cfg \<and>
           cfg_initialState cfg2 = cfg_initialState cfg \<and>
           cfg_initialstate cfg2 = cfg_initialstate cfg \<and>
           cfg_parent cfg2 = cfg_parent cfg \<and>
           cfg_namespace cfg2 =
             (case cfg_parent cfg of
                None \<Rightarrow> cfg_namespace cfg
              | Some parent \<Rightarrow>
                  (case cfg_namespace cfg of
                     Some ns \<Rightarrow>
                       (case scope (reg parent) of None \<Rightarrow> Some ns | Some ps \<Rightarrow> Some (ps @ ns))
                   | None \<Rightarrow>
                       (case scope (reg parent) of
                          None \<Rightarrow> None
                        | Some ps \<Rightarrow> if ps \<noteq> [] then Some ps else None))) \<and>
           (\<forall>sel. cfg_selector cfg = Some sel \<longrightarrow>
              sel2 = (case cfg_parent cfg of
                        None \<Rightarrow> sel
                      | Some parent \<Rightarrow> selector (reg parent) @ '' '' @ sel))"
  using assms
  by (auto simp add: ViewRegistry2_def inherit_def scope_references_def Let_def
      split: option.splits sum.splits if_splits)

lemma initialise_this:
  "reg (constructed (initialise cfg sel)) =
     \<lparr>selector = sel,
      scope = cfg_namespace cfg,
      references = (case cfg_references cfg of None \<Rightarrow> [] | Some refs \<Rightarrow> refs),
      p_parent = (cfg_parent cfg \<noteq> None),
      propertyFields = cfg_properties cfg,
      p_properties = cfg_properties cfg,
      p_states =
        (if \<not> hasOwnProperty (case cfg_states cfg of None \<Rightarrow> [] | Some m \<Rightarrow> m) ''default''
         then AList.update ''default'' (Handler ''() => {}'' None)
                (case cfg_states cfg of None \<Rightarrow> [] | Some m \<Rightarrow> m)
         else (case cfg_states cfg of None \<Rightarrow> [] | Some m \<Rightarrow> m)),
      p_state = ''default'',
      displaystate = None,
      initialstate =
        (case cfg_initialState cfg of
           Some s \<Rightarrow> s
         | None \<Rightarrow> (case cfg_initialstate cfg of Some s \<Rightarrow> s | None \<Rightarrow> ''default'')),
      p_reactions = cfg_reactions cfg,
      trace = []\<rparr>"
  by (simp add: initialise_def Let_def)


lemma initialise_subs: "subs (constructed (initialise cfg sel)) = []"
  by (simp add: initialise_def Let_def)


section \<open>The claims\<close>

text \<open>
  C1. The claim: an assignment \<open>state = v\<close> whose normalized value differs from the
  current state emits exactly one \<open>state.changed\<close> with the old and the normalized new
  state and applies exactly one handler, \<open>states[normalized v]\<close> or \<open>states["default"]\<close>
  when the key is absent. The code at a key that \<open>states\<close> does not have:
  \<open>app\<close> is in state \<open>default\<close> and has no handler for \<open>loading\<close>. The assignment
  \<open>state = 'loading'\<close> sets the state and emits the event, then the dispatch listener
  throws a \<open>TypeError\<close>; no handler is applied, not the one under \<open>default\<close> either.
\<close>

theorem unmanaged_state_throws:
  "snd (set_state (View app []) (Str ''loading'')) =
     Some (TypeError ''undefined has no property apply'') \<and>
   state (reg (fst (set_state (View app []) (Str ''loading'')))) = ''loading'' \<and>
   trace (reg (fst (set_state (View app []) (Str ''loading'')))) =
     [Emit ''state.changed'' (Change ''default'' ''loading'')] \<and>
   invoked (trace (reg (fst (set_state (View app []) (Str ''loading''))))) = []"
  by (simp add: app_def machine_defs string_defs)

text \<open>
  C2. The claim: the assigned value is normalized first and compared with the current
  state afterwards, so that an assignment whose normalized value is the current state
  does nothing. The code compares the value as it was given: after \<open>state = 'online'\<close>
  the assignment \<open>state = 'ONLINE'\<close> emits a second \<open>state.changed\<close>, from
  \<open>online\<close> to \<open>online\<close>, and applies the handler a second time.
\<close>

theorem unnormalized_repeat_transitions:
  "state (reg (fst (set_state (View app []) (Str ''online'')))) = ''online'' \<and>
   normalized ''ONLINE'' = ''online'' \<and>
   snd (set_state (fst (set_state (View app []) (Str ''online''))) (Str ''ONLINE'')) = None \<and>
   trace (reg (fst (set_state (fst (set_state (View app []) (Str ''online''))) (Str ''ONLINE'')))) =
     [Emit ''state.changed'' (Change ''default'' ''online''), Invoke ''online'',
      Emit ''state.changed'' (Change ''online'' ''online''), Invoke ''online'']"
  by (simp add: app_def machine_defs string_defs)












text \<open>
  C7. For every configuration with a \<open>parent\<close>: if the parent's selector does not
  resolve in the DOM the construction throws (\<open>Parent component could not be found.\<close>
  when the configuration has a selector); if the construction succeeds, the selector of
  the registry is \<open>parent.selector + ' ' + selector\<close> and its namespace is the parent's
  scope followed by the registry's own namespace, an absent one contributing nothing.
\<close>

theorem parent_scoping:
  assumes "cfg_parent cfg = Some parent"
  shows "(querySelector doc (selector (reg parent)) = None \<longrightarrow>
            isl (snd (ViewRegistry2 doc (Config cfg)))) \<and>
         (querySelector doc (selector (reg parent)) = None \<and> cfg_selector cfg \<noteq> None \<longrightarrow>
            snd (ViewRegistry2 doc (Config cfg)) = Inl (Error ''Parent component could not be found.'')) \<and>
         (\<forall>sel c. cfg_selector cfg = Some sel \<and> snd (ViewRegistry2 doc (Config cfg)) = Inr c \<longrightarrow>
            selector (reg (constructed c)) = selector (reg parent) @ '' '' @ sel \<and>
            prefix_of (scope (reg (constructed c))) =
              prefix_of (scope (reg parent)) @ prefix_of (cfg_namespace cfg))"
proof (intro conjI allI impI)
  assume "querySelector doc (selector (reg parent)) = None"
  with assms show "isl (snd (ViewRegistry2 doc (Config cfg)))"
    by (simp add: ViewRegistry2_def inherit_def split: option.splits)
next
  assume "querySelector doc (selector (reg parent)) = None \<and> cfg_selector cfg \<noteq> None"
  with assms show "snd (ViewRegistry2 doc (Config cfg)) =
      Inl (Error ''Parent component could not be found.'')"
    by (auto simp add: ViewRegistry2_def inherit_def split: option.splits)
next
  fix sel c
  assume a: "cfg_selector cfg = Some sel \<and> snd (ViewRegistry2 doc (Config cfg)) = Inr c"
  from constructed_initialise [of doc cfg c] a assms obtain cfg2 sel2 where
    c: "c = initialise cfg2 sel2"
    and ns: "cfg_namespace cfg2 =
      (case cfg_namespace cfg of
         Some ns \<Rightarrow> (case scope (reg parent) of None \<Rightarrow> Some ns | Some ps \<Rightarrow> Some (ps @ ns))
       | None \<Rightarrow>
           (case scope (reg parent) of
              None \<Rightarrow> None
            | Some ps \<Rightarrow> if ps \<noteq> [] then Some ps else None))"
    and sel2: "sel2 = selector (reg parent) @ '' '' @ sel"
    by auto
  show "selector (reg (constructed c)) = selector (reg parent) @ '' '' @ sel"
    unfolding c by (simp add: initialise_this sel2)
  show "prefix_of (scope (reg (constructed c))) =
          prefix_of (scope (reg parent)) @ prefix_of (cfg_namespace cfg)"
    unfolding c by (simp add: initialise_this ns prefix_of_def split: option.splits)
qed

theorem parent_scoping_witness:
  "cfg_parent panel_cfg = Some (View app []) \<and>
   cfg_selector panel_cfg = Some ''.panel'' \<and>
   snd (ViewRegistry2 page (Config panel_cfg)) =
     Inr \<lparr>constructed = View panel [], parent_view = Some (View app [View panel []]),
          ref_created = ''.app .panel'', requeued = None\<rparr> \<and>
   selector panel = ''.app .panel'' \<and>
   prefix_of (scope panel) = ''app.panel.'' \<and>
   querySelector (\<lambda>sel. []) (selector app) = None \<and>
   snd (ViewRegistry2 (\<lambda>sel. []) (Config panel_cfg)) =
     Inl (Error ''Parent component could not be found.'')"
proof -
  have 1: "cfg_parent panel_cfg = Some (View app [])" by (simp add: panel_cfg_def)
  have 2: "cfg_selector panel_cfg = Some ''.panel''" by (simp add: panel_cfg_def)
  have 3: "snd (ViewRegistry2 page (Config panel_cfg)) =
     Inr \<lparr>constructed = View panel [], parent_view = Some (View app [View panel []]),
          ref_created = ''.app .panel'', requeued = None\<rparr>"
    by (simp add: panel_constructed)
  have 4: "querySelector (\<lambda>sel. []) (selector app) = None" by (simp add: querySelector_def)
  have 5: "cfg_selector panel_cfg \<noteq> None" using 2 by simp
  have 6: "selector app = ''.app''" "scope app = Some ''app.''"
    "cfg_namespace panel_cfg = Some ''panel.''"
    by (simp_all add: app_def panel_cfg_def)
  from parent_scoping [OF 1, of page] 2 3 6
  have a: "selector panel = ''.app .panel'' \<and> prefix_of (scope panel) = ''app.panel.''"
    by (simp add: prefix_of_def)
  from parent_scoping [OF 1, of "\<lambda>sel. []"] 4 5
  have b: "snd (ViewRegistry2 (\<lambda>sel. []) (Config panel_cfg)) =
     Inl (Error ''Parent component could not be found.'')"
    by simp
  from a b 1 2 3 4 show ?thesis by simp
qed

text \<open>
  C8. For every registry with a property model, each of the three field events is
  translated into exactly one \<open>property.changed\<close> event: \<open>field.update\<close> into
  \<open>{property: field, old, new}\<close>, \<open>field.create\<close> into \<open>{property: field,
  old: null, new:\<close> the current value of the field\<open>}\<close>, \<open>field.delete\<close> into
  \<open>{property: field, old:\<close> the deleted value\<open>, new: null}\<close>.
\<close>

theorem property_changed_translation:
  assumes "p_properties (reg v) = Some model"
  shows "trace (reg (field_listener v (Field_update field old new))) =
           trace (reg v) @ [Emit ''property.changed'' (PropertyChange field old new)] \<and>
         trace (reg (field_listener v (Field_create field))) =
           trace (reg v) @
             [Emit ''property.changed''
                (PropertyChange field Null (coalesce [get_property model field]))] \<and>
         trace (reg (field_listener v (Field_delete field deleted))) =
           trace (reg v) @ [Emit ''property.changed'' (PropertyChange field deleted Null)]"
  using assms by (simp add: emit_property_changed_def)

theorem property_changed_translation_witness:
  "p_properties (reg (View panel [])) = Some [(''title'', Str ''Untitled'')] \<and>
   trace (reg (field_listener (View panel []) (Field_update ''title'' (Str ''Untitled'') (Str ''Inbox'')))) =
     [Emit ''property.changed'' (PropertyChange ''title'' (Str ''Untitled'') (Str ''Inbox''))] \<and>
   trace (reg (field_listener (View panel []) (Field_create ''title''))) =
     [Emit ''property.changed'' (PropertyChange ''title'' Null (Str ''Untitled''))] \<and>
   trace (reg (field_listener (View panel []) (Field_create ''badge''))) =
     [Emit ''property.changed'' (PropertyChange ''badge'' Null Null)] \<and>
   trace (reg (field_listener (View panel []) (Field_delete ''title'' (Str ''Inbox'')))) =
     [Emit ''property.changed'' (PropertyChange ''title'' (Str ''Inbox'') Null)]"
proof -
  have 1: "p_properties (reg (View panel [])) = Some [(''title'', Str ''Untitled'')]"
    by (simp add: panel_def)
  have t: "trace (reg (View panel [])) = []" by (simp add: panel_def)
  have g: "coalesce [get_property [(''title'', Str ''Untitled'')] ''title''] = Str ''Untitled''"
    "coalesce [get_property [(''title'', Str ''Untitled'')] ''badge''] = Null"
    by (simp_all add: get_property_def)
  from property_changed_translation [OF 1, of "''title''" "Str ''Untitled''" "Str ''Inbox''" "Str ''Inbox''"]
    property_changed_translation [OF 1, of "''badge''" Null Null Null]
    1 t g
  show ?thesis by simp
qed

text \<open>
  C9. The claim: with a parent configured, \<open>createReaction(source, target)\<close> adds the
  entry whether or not reactions were supplied at construction. The code with a parent
  and no reactions: \<open>sidebar\<close> is constructed with \<open>app\<close> as its parent and without
  \<open>reactions\<close>, so \<open>_reactions\<close> is \<open>null\<close>, and the assignment
  \<open>this._reactions[source] = target\<close> throws; after \<open>clearReactions()\<close> it does so
  on \<open>panel\<close> too.
\<close>

theorem createReaction_without_reactions_throws:
  "snd (ViewRegistry2 page (Config sidebar_cfg)) =
     Inr \<lparr>constructed = View sidebar [], parent_view = Some (View app [View sidebar []]),
          ref_created = ''.app .panel'', requeued = None\<rparr> \<and>
   p_parent sidebar \<and>
   reactions sidebar = [] \<and>
   createReaction sidebar ''online'' ''open'' = Inl (TypeError ''null has no properties'') \<and>
   createReaction (clearReactions panel) ''online'' ''open'' =
     Inl (TypeError ''null has no properties'')"
  by (simp add: sidebar_constructed createReaction_def clearReactions_def reactions_def
      sidebar_def panel_def)



end
